theory Spec2Isabelle
  imports Main "HOL-Library.Sublist"
begin

section \<open>Markup produced by the React components\<close>

text \<open>
  A rendered JSX tree. \<open>Element\<close> is a host element (\<open>div\<close>, \<open>a\<close>, \<open>section\<close>, ...),
  \<open>Component\<close> is an element whose implementation lives outside the repository
  (\<open>Heading\<close>, \<open>Link\<close>, \<open>Layout\<close>, an imported SVG module), \<open>Fragment\<close> is
  \<open><>...</>\<close>. Strings are byte strings: a glyph outside ASCII is written as its
  UTF-8 bytes.
\<close>

text \<open>
  The value of a JSX attribute: a string literal (\<open>S\<close>), a class of the component's
  CSS module (\<open>Module ''x''\<close> for \<open>styles.x\<close>, whose generated name is not in the
  sources), the space-joined result of \<open>clsx\<close> on several classes (\<open>Joined\<close>), or an
  inline style object (\<open>Obj\<close>).
\<close>

datatype prop_value =
    S string
  | Module string
  | Joined "prop_value list"
  | Obj "(string \<times> string) list"

datatype node =
    Element string "(string \<times> prop_value) list" "node list"
  | Component string "(string \<times> prop_value) list" "node list"
  | Text string
  | Fragment "node list"

text \<open>\<open>clsx\<close> joins its class arguments with spaces; a single argument is returned as it is.\<close>

fun clsx :: "prop_value list \<Rightarrow> prop_value" where
  "clsx [v] = v"
| "clsx vs = Joined vs"

subsection \<open>Observations on a rendered tree\<close>

fun props :: "node \<Rightarrow> (string \<times> prop_value) list" where
  "props (Element t ps ks) = ps"
| "props (Component t ps ks) = ps"
| "props (Text s) = []"
| "props (Fragment ks) = []"

fun kids :: "node \<Rightarrow> node list" where
  "kids (Element t ps ks) = ks"
| "kids (Component t ps ks) = ks"
| "kids (Text s) = []"
| "kids (Fragment ks) = ks"

definition attr :: "string \<Rightarrow> node \<Rightarrow> prop_value option" where
  "attr k n = map_of (props n) k"

fun is_element :: "string \<Rightarrow> node \<Rightarrow> bool" where
  "is_element t (Element t' ps ks) = (t = t')"
| "is_element t n = False"

fun is_component :: "string \<Rightarrow> node \<Rightarrow> bool" where
  "is_component t (Component t' ps ks) = (t = t')"
| "is_component t n = False"

text \<open>All nodes of a tree, the root first, in document order.\<close>

fun descendants :: "node \<Rightarrow> node list" where
  "descendants (Element t ps ks) = Element t ps ks # concat (map descendants ks)"
| "descendants (Component t ps ks) = Component t ps ks # concat (map descendants ks)"
| "descendants (Text s) = [Text s]"
| "descendants (Fragment ks) = Fragment ks # concat (map descendants ks)"

fun text_content :: "node \<Rightarrow> string" where
  "text_content (Element t ps ks) = concat (map text_content ks)"
| "text_content (Component t ps ks) = concat (map text_content ks)"
| "text_content (Text s) = s"
| "text_content (Fragment ks) = concat (map text_content ks)"

definition elements :: "string \<Rightarrow> node \<Rightarrow> node list" where
  "elements t n = filter (is_element t) (descendants n)"

definition components :: "string \<Rightarrow> node \<Rightarrow> node list" where
  "components t n = filter (is_component t) (descendants n)"

definition with_class :: "prop_value \<Rightarrow> node \<Rightarrow> node list" where
  "with_class c n = filter (\<lambda>d. attr ''className'' d = Some c) (descendants n)"

section \<open>HomepageFeatures\<close>

record FeatureItem =
  title :: string
  Svg :: string
  description :: node

text \<open>
  The three compiled-in entries. \<open>Svg\<close> holds the module the source requires; JSX text
  that spans lines is joined with single spaces, as the JSX compiler does.
\<close>

definition FeatureList :: "FeatureItem list" where
  "FeatureList = [
     \<lparr> title = ''Flutter Libraries'',
       Svg = ''@site/static/img/undraw_docusaurus_mountain.svg'',
       description = Fragment [Text
         ''Publishing high-quality Flutter packages to pub.dev with best practices, comprehensive documentation, and reliable maintenance.''] \<rparr>,
     \<lparr> title = ''Kotlin Multiplatform'',
       Svg = ''@site/static/img/undraw_docusaurus_tree.svg'',
       description = Fragment [Text
         ''Crafting KMP libraries for klibs.io with cross-platform excellence, supporting Android, iOS, and beyond.''] \<rparr>,
     \<lparr> title = ''Open Source Excellence'',
       Svg = ''@site/static/img/undraw_docusaurus_react.svg'',
       description = Fragment [Text
         ''Committed to building trusted, well-documented libraries that developers can rely on. Join us in creating better mobile experiences.''] \<rparr>
   ]"

definition Feature :: "FeatureItem \<Rightarrow> node" where
  "Feature item =
     Element ''div'' [(''className'', clsx [S ''col col--4''])] [
       Element ''div'' [(''className'', S ''text--center'')] [
         Component (Svg item) [(''className'', Module ''featureSvg''), (''role'', S ''img'')] []
       ],
       Element ''div'' [(''className'', S ''text--center padding-horiz--md'')] [
         Component ''Heading'' [(''as'', S ''h3'')] [Text (title item)],
         Element ''p'' [] [description item]
       ]
     ]"

text \<open>
  \<open>FeatureList.map((props, idx) => <Feature key={idx} {...props} />)\<close>: the key is
  consumed by React and is not part of the markup.
\<close>

definition HomepageFeatures :: node where
  "HomepageFeatures =
     Element ''section'' [(''className'', Module ''features'')] [
       Element ''div'' [(''className'', S ''container'')] [
         Element ''div'' [(''className'', S ''row'')] (map Feature FeatureList)
       ]
     ]"

section \<open>BuyMeACoffee\<close>

text \<open>The component of \<open>src/components/BuyMeACoffee/index.tsx\<close>: one link.\<close>

definition BuyMeACoffee :: node where
  "BuyMeACoffee =
     Element ''div'' [(''className'', Module ''coffeeContainer'')] [
       Element ''a'' [
           (''href'', S ''https://www.buymeacoffee.com/brewkits''),
           (''target'', S ''_blank''),
           (''rel'', S ''noopener noreferrer''),
           (''className'', Module ''coffeeButton'')] [
         Element ''span'' [(''className'', Module ''coffeeIcon'')]
           [Text [CHR 0xE2, CHR 0x98, CHR 0x95]],
         Element ''span'' [(''className'', Module ''coffeeText'')] [Text ''Buy Me a Coffee'']
       ]
     ]"

text \<open>The other variant of the component in the repository: two links.\<close>

definition BuyMeACoffee_two :: node where
  "BuyMeACoffee_two =
     Element ''div'' [(''className'', Module ''supportContainer'')] [
       Element ''a'' [
           (''href'', S ''https://www.buymeacoffee.com/brewkits''),
           (''target'', S ''_blank''),
           (''rel'', S ''noopener noreferrer''),
           (''className'', Module ''coffeeButton'')] [
         Element ''span'' [(''className'', Module ''coffeeIcon'')]
           [Text [CHR 0xE2, CHR 0x98, CHR 0x95]],
         Element ''span'' [(''className'', Module ''buttonText'')] [Text ''Buy Me a Coffee'']
       ],
       Element ''a'' [
           (''href'', S ''https://www.patreon.com/brewkits''),
           (''target'', S ''_blank''),
           (''rel'', S ''noopener noreferrer''),
           (''className'', Module ''patreonButton'')] [
         Element ''span'' [(''className'', Module ''patreonIcon'')]
           [Text [CHR 0xF0, CHR 0x9F, CHR 0x8E, CHR 0xA8]],
         Element ''span'' [(''className'', Module ''buttonText'')] [Text ''Support on Patreon'']
       ]
     ]"


section \<open>Site configuration\<close>

record Logo =
  alt :: string
  src :: string

record NavbarItem =
  item_type :: "string option"
  sidebarId :: "string option"
  to :: "string option"
  href :: "string option"
  label :: string
  position :: string

record Navbar =
  title :: string
  logo :: Logo
  items :: "NavbarItem list"

record FooterLinkItem =
  label :: string
  to :: "string option"
  href :: "string option"

record FooterLinks =
  title :: string
  items :: "FooterLinkItem list"

record Footer =
  style :: string
  links :: "FooterLinks list option"
  copyright :: string

record Prism =
  theme :: string
  darkTheme :: string
  additionalLanguages :: "string list"

record ColorMode =
  defaultMode :: string
  disableSwitch :: bool
  respectPrefersColorScheme :: bool

record ThemeConfig =
  image :: "string option"
  navbar :: Navbar
  footer :: Footer
  prism :: "Prism option"
  colorMode :: ColorMode

record I18n =
  defaultLocale :: string
  locales :: "string list"

record PresetOptions =
  docs_sidebarPath :: string
  blog_showReadingTime :: bool
  theme_customCss :: string

record Config =
  title :: string
  tagline :: string
  favicon :: string
  url :: string
  baseUrl :: string
  organizationName :: string
  projectName :: string
  deploymentBranch :: string
  trailingSlash :: bool
  onBrokenLinks :: "string option"
  onBrokenMarkdownLinks :: "string option"
  i18n :: "I18n option"
  presets :: "(string \<times> PresetOptions) list"
  themeConfig :: ThemeConfig

subsection \<open>The clock and number formatting\<close>

text \<open>
  The value of \<open>new Date()\<close> at the moment the configuration module is evaluated; the
  configuration reads its \<open>getFullYear()\<close> only.
\<close>

record Date =
  getFullYear :: int

text \<open>
  A template literal converts an integer to its decimal digits, with a leading minus
  sign when it is negative.
\<close>

definition digit :: "nat \<Rightarrow> char" where
  "digit d = char_of (48 + d)"

fun decimal :: "nat \<Rightarrow> string" where
  "decimal n = (if n < 10 then [digit n] else decimal (n div 10) @ [digit (n mod 10)])"

declare decimal.simps [simp del]

definition Number_toString :: "int \<Rightarrow> string" where
  "Number_toString i = (if i < 0 then CHR ''-'' # decimal (nat (- i)) else decimal (nat i))"

definition copyright_text :: "Date \<Rightarrow> string" where
  "copyright_text now =
     ''Copyright '' @ [CHR 0xC2, CHR 0xA9] @ '' '' @ Number_toString (getFullYear now)
       @ '' BrewKits. Built with Docusaurus.''"

subsection \<open>\<open>docusaurus.config.ts\<close>\<close>

text \<open>
  The preset entry \<open>['classic', {docs, blog, theme}]\<close> is a pair of the preset's name and
  its options; the two Prism themes are imported objects and are written as their names.
\<close>

definition config :: "Date \<Rightarrow> Config" where
  "config now = \<lparr>
     Config.title = ''BrewKits'',
     tagline = ''Publishing Excellence for Flutter & Kotlin Multiplatform Libraries'',
     favicon = ''img/icon.png'',
     url = ''https://brewkits.dev'',
     baseUrl = ''/'',
     organizationName = ''brewkits'',
     projectName = ''brewkits.github.io'',
     deploymentBranch = ''gh-pages'',
     trailingSlash = False,
     onBrokenLinks = Some ''throw'',
     onBrokenMarkdownLinks = Some ''warn'',
     i18n = Some \<lparr> defaultLocale = ''en'', locales = [''en''] \<rparr>,
     presets = [(''classic'', \<lparr>
       docs_sidebarPath = ''./sidebars.ts'',
       blog_showReadingTime = True,
       theme_customCss = ''./src/css/custom.css'' \<rparr>)],
     themeConfig = \<lparr>
       image = Some ''img/banner.png'',
       navbar = \<lparr>
         Navbar.title = ''BrewKits'',
         logo = \<lparr> alt = ''BrewKits Logo'', src = ''img/logo.png'' \<rparr>,
         Navbar.items = [
           \<lparr> item_type = Some ''docSidebar'', sidebarId = Some ''tutorialSidebar'',
             NavbarItem.to = None, NavbarItem.href = None,
             NavbarItem.label = ''Docs'', position = ''left'' \<rparr>,
           \<lparr> item_type = None, sidebarId = None,
             NavbarItem.to = Some ''/blog'', NavbarItem.href = None,
             NavbarItem.label = ''Blog'', position = ''left'' \<rparr>,
           \<lparr> item_type = None, sidebarId = None,
             NavbarItem.to = None, NavbarItem.href = Some ''https://github.com/brewkits'',
             NavbarItem.label = ''GitHub'', position = ''right'' \<rparr>
         ] \<rparr>,
       footer = \<lparr>
         style = ''dark'',
         links = Some [
           \<lparr> FooterLinks.title = ''Docs'',
             FooterLinks.items = [
               \<lparr> FooterLinkItem.label = ''Introduction'',
                 FooterLinkItem.to = Some ''/docs/intro'', FooterLinkItem.href = None \<rparr>] \<rparr>,
           \<lparr> FooterLinks.title = ''Community'',
             FooterLinks.items = [
               \<lparr> FooterLinkItem.label = ''GitHub'',
                 FooterLinkItem.to = None,
                 FooterLinkItem.href = Some ''https://github.com/brewkits'' \<rparr>] \<rparr>
         ],
         copyright = copyright_text now \<rparr>,
       prism = Some \<lparr>
         theme = ''prismThemes.github'',
         darkTheme = ''prismThemes.dracula'',
         additionalLanguages = [''dart'', ''yaml''] \<rparr>,
       colorMode = \<lparr>
         defaultMode = ''dark'',
         disableSwitch = False,
         respectPrefersColorScheme = True \<rparr>
     \<rparr>
   \<rparr>"

subsection \<open>The other configuration object in the repository\<close>

definition config_minimal :: "Date \<Rightarrow> Config" where
  "config_minimal now = \<lparr>
     Config.title = ''BrewKits'',
     tagline = ''The Traffic Control System for your App Architecture'',
     favicon = ''img/favicon.ico'',
     url = ''https://brewkits.dev'',
     baseUrl = ''/'',
     organizationName = ''brewkits'',
     projectName = ''brewkits.github.io'',
     deploymentBranch = ''gh-pages'',
     trailingSlash = False,
     onBrokenLinks = None,
     onBrokenMarkdownLinks = None,
     i18n = None,
     presets = [],
     themeConfig = \<lparr>
       image = None,
       navbar = \<lparr>
         Navbar.title = ''BrewKits'',
         logo = \<lparr> alt = ''BrewKits Logo'', src = ''img/logo.svg'' \<rparr>,
         Navbar.items = [
           \<lparr> item_type = None, sidebarId = None,
             NavbarItem.to = Some ''/docs/intro'', NavbarItem.href = None,
             NavbarItem.label = ''Docs'', position = ''left'' \<rparr>,
           \<lparr> item_type = None, sidebarId = None,
             NavbarItem.to = Some ''/blog'', NavbarItem.href = None,
             NavbarItem.label = ''Blog'', position = ''left'' \<rparr>,
           \<lparr> item_type = None, sidebarId = None,
             NavbarItem.to = None, NavbarItem.href = Some ''https://github.com/brewkits'',
             NavbarItem.label = ''GitHub'', position = ''right'' \<rparr>
         ] \<rparr>,
       footer = \<lparr>
         style = ''dark'',
         links = None,
         copyright = copyright_text now \<rparr>,
       prism = None,
       colorMode = \<lparr>
         defaultMode = ''dark'',
         disableSwitch = False,
         respectPrefersColorScheme = True \<rparr>
     \<rparr>
   \<rparr>"

section \<open>The homepage\<close>

text \<open>What \<open>useDocusaurusContext()\<close> returns; the page reads \<open>siteConfig\<close> from it.\<close>

record DocusaurusContext =
  siteConfig :: Config

definition HomepageHeader :: "DocusaurusContext \<Rightarrow> node" where
  "HomepageHeader ctx =
     Element ''header''
       [(''className'', clsx [S ''hero hero--primary'', Module ''heroBanner''])] [
       Element ''div'' [(''className'', S ''container'')] [
         Component ''Heading'' [(''as'', S ''h1''), (''className'', S ''hero__title'')]
           [Text (Config.title (siteConfig ctx))],
         Element ''p'' [(''className'', S ''hero__subtitle'')]
           [Text (tagline (siteConfig ctx))],
         Element ''div'' [(''className'', Module ''buttons'')] [
           Component ''Link''
             [(''className'', S ''button button--secondary button--lg''),
              (''to'', S ''/docs/intro'')]
             [Text ''Explore Our Libraries''],
           Component ''Link''
             [(''className'', S ''button button--primary button--lg''),
              (''to'', S ''/blog''),
              (''style'', Obj [(''marginLeft'', ''1rem'')])]
             [Text ''Read Our Blog'']
         ]
       ]
     ]"

definition Home :: "DocusaurusContext \<Rightarrow> node" where
  "Home ctx =
     Component ''Layout''
       [(''title'', S (''Welcome to '' @ Config.title (siteConfig ctx))),
        (''description'', S ''Publishing excellence for Flutter and Kotlin Multiplatform libraries. Trusted by developers worldwide.'')] [
       HomepageHeader ctx,
       Element ''main'' [] [
         HomepageFeatures,
         Element ''section''
           [(''style'', Obj [(''background'', ''var(--ifm-background-surface-color)''),
                             (''paddingBottom'', ''2rem'')])] [
           Element ''div'' [(''className'', S ''container'')] [
             Element ''h2''
               [(''style'', Obj [(''textAlign'', ''center''), (''marginBottom'', ''1rem'')])]
               [Text ''Support Our Work''],
             Element ''p''
               [(''style'', Obj [(''textAlign'', ''center''), (''marginBottom'', ''1.5rem''),
                                 (''color'', ''var(--ifm-color-emphasis-600)'')])]
               [Text ''If you find our libraries useful, consider buying us a coffee to support continued development!''],
             BuyMeACoffee
           ]
         ]
       ]
     ]"

subsection \<open>Observations used by the statements\<close>

text \<open>The children of the element of class \<open>row\<close>: the columns of the grid.\<close>

definition columns :: "node \<Rightarrow> node list" where
  "columns n = concat (map kids (with_class (S ''row'') n))"

definition icons :: "node \<Rightarrow> node list" where
  "icons n = filter (\<lambda>d. attr ''role'' d = Some (S ''img'')) (descendants n)"

definition opens_new_context :: "node \<Rightarrow> bool" where
  "opens_new_context n = (attr ''target'' n = Some (S ''_blank''))"

text \<open>Reading a decimal numeral back, to show that formatting loses nothing.\<close>

definition digit_value :: "char \<Rightarrow> nat" where
  "digit_value c = of_char c - 48"

definition parse_decimal :: "string \<Rightarrow> nat" where
  "parse_decimal cs = foldl (\<lambda>a c. 10 * a + digit_value c) 0 cs"

section \<open>Route resolution\<close>











section \<open>Properties of the components\<close>

text \<open>
  C1. Rendering HomepageFeatures gives one row whose columns are the three entries of
  FeatureList in order, all of the same grid width (\<open>col col--4\<close>); each column holds one
  icon (the entry's SVG), one heading with the entry's title and one paragraph with the
  entry's description; no title and no description text is empty.
\<close>

theorem HomepageFeatures_three_columns:
  "columns HomepageFeatures = map Feature FeatureList
   \<and> length (columns HomepageFeatures) = 3
   \<and> map (attr ''className'') (columns HomepageFeatures) = replicate 3 (Some (S ''col col--4''))
   \<and> map icons (columns HomepageFeatures) =
       map (\<lambda>item. [Component (Svg item)
              [(''className'', Module ''featureSvg''), (''role'', S ''img'')] []]) FeatureList
   \<and> map (components ''Heading'') (columns HomepageFeatures) =
       map (\<lambda>item. [Component ''Heading'' [(''as'', S ''h3'')]
              [Text (FeatureItem.title item)]]) FeatureList
   \<and> map (elements ''p'') (columns HomepageFeatures) =
       map (\<lambda>item. [Element ''p'' [] [description item]]) FeatureList
   \<and> [] \<notin> set (map FeatureItem.title FeatureList)
   \<and> [] \<notin> set (map (text_content \<circ> description) FeatureList)"
proof -
  have cols: "columns HomepageFeatures = map Feature FeatureList"
    by (simp add: columns_def with_class_def HomepageFeatures_def attr_def FeatureList_def
        Feature_def)
  have len: "length (map Feature FeatureList) = 3"
    by (simp add: FeatureList_def)
  have cls: "map (attr ''className'') (map Feature FeatureList) =
       replicate 3 (Some (S ''col col--4''))"
    by (simp add: FeatureList_def Feature_def attr_def numeral_3_eq_3)
  have ico: "map icons (map Feature FeatureList) =
       map (\<lambda>item. [Component (Svg item)
              [(''className'', Module ''featureSvg''), (''role'', S ''img'')] []]) FeatureList"
    by (simp add: FeatureList_def Feature_def attr_def icons_def)
  have hdg: "map (components ''Heading'') (map Feature FeatureList) =
       map (\<lambda>item. [Component ''Heading'' [(''as'', S ''h3'')]
              [Text (FeatureItem.title item)]]) FeatureList"
    by (simp add: FeatureList_def Feature_def components_def)
  have par: "map (elements ''p'') (map Feature FeatureList) =
       map (\<lambda>item. [Element ''p'' [] [description item]]) FeatureList"
    by (simp add: FeatureList_def Feature_def elements_def)
  have titles: "[] \<notin> set (map FeatureItem.title FeatureList)"
    by (simp add: FeatureList_def)
  have descs: "[] \<notin> set (map (text_content \<circ> description) FeatureList)"
    by (simp add: FeatureList_def)
  show ?thesis
    unfolding cols using len cls ico hdg par titles descs by blast
qed


text \<open>
  C10. In both variants of BuyMeACoffee, the nodes that target a new browsing context
  (\<open>target="_blank"\<close>) are exactly the anchors, and each of them carries
  \<open>rel="noopener noreferrer"\<close>.
\<close>

theorem BuyMeACoffee_rel_noopener:
  "filter opens_new_context (descendants BuyMeACoffee) = elements ''a'' BuyMeACoffee
   \<and> map (attr ''rel'') (filter opens_new_context (descendants BuyMeACoffee)) =
       [Some (S ''noopener noreferrer'')]
   \<and> filter opens_new_context (descendants BuyMeACoffee_two) = elements ''a'' BuyMeACoffee_two
   \<and> map (attr ''rel'') (filter opens_new_context (descendants BuyMeACoffee_two)) =
       [Some (S ''noopener noreferrer''), Some (S ''noopener noreferrer'')]"
  by (simp add: opens_new_context_def elements_def BuyMeACoffee_def BuyMeACoffee_two_def
      attr_def)

section \<open>Properties of the homepage\<close>

text \<open>
  C3. For every site configuration, the homepage holds exactly one header, the one
  HomepageHeader renders; its only heading shows the configured title, its subtitle
  paragraph shows the configured tagline, and it has exactly two links, to
  \<open>/docs/intro\<close> and to \<open>/blog\<close>. With the configuration of
  \<open>docusaurus.config.ts\<close> the title is \<open>BrewKits\<close>, and that title and the configured
  tagline are text nodes of the header.
\<close>

theorem HomepageHeader_title_tagline_links:
  "elements ''header'' (Home ctx) = [HomepageHeader ctx]
   \<and> components ''Heading'' (HomepageHeader ctx) =
       [Component ''Heading'' [(''as'', S ''h1''), (''className'', S ''hero__title'')]
          [Text (Config.title (siteConfig ctx))]]
   \<and> with_class (S ''hero__subtitle'') (HomepageHeader ctx) =
       [Element ''p'' [(''className'', S ''hero__subtitle'')] [Text (tagline (siteConfig ctx))]]
   \<and> map (attr ''to'') (components ''Link'' (HomepageHeader ctx)) =
       [Some (S ''/docs/intro''), Some (S ''/blog'')]
   \<and> Config.title (config now) = ''BrewKits''
   \<and> Text ''BrewKits'' \<in> set (descendants (HomepageHeader \<lparr> siteConfig = config now \<rparr>))
   \<and> Text ''Publishing Excellence for Flutter & Kotlin Multiplatform Libraries''
        \<in> set (descendants (HomepageHeader \<lparr> siteConfig = config now \<rparr>))"
proof -
  have hdr: "elements ''header'' (Home ctx) = [HomepageHeader ctx]"
    by (simp add: elements_def Home_def HomepageHeader_def HomepageFeatures_def
        BuyMeACoffee_def FeatureList_def Feature_def)
  have rest: "components ''Heading'' (HomepageHeader c) =
       [Component ''Heading'' [(''as'', S ''h1''), (''className'', S ''hero__title'')]
          [Text (Config.title (siteConfig c))]]
     \<and> with_class (S ''hero__subtitle'') (HomepageHeader c) =
       [Element ''p'' [(''className'', S ''hero__subtitle'')] [Text (tagline (siteConfig c))]]
     \<and> map (attr ''to'') (components ''Link'' (HomepageHeader c)) =
       [Some (S ''/docs/intro''), Some (S ''/blog'')]
     \<and> Text (Config.title (siteConfig c)) \<in> set (descendants (HomepageHeader c))
     \<and> Text (tagline (siteConfig c)) \<in> set (descendants (HomepageHeader c))" for c
    by (simp add: HomepageHeader_def components_def with_class_def attr_def)
  have cfg: "Config.title (config now) = ''BrewKits''
     \<and> tagline (config now) =
         ''Publishing Excellence for Flutter & Kotlin Multiplatform Libraries''"
    by (simp add: config_def)
  show ?thesis
    using hdr rest [of ctx] rest [of "\<lparr> siteConfig = config now \<rparr>"] cfg by simp
qed

text \<open>
  C5. HomepageHeader reads only the title and the tagline of the site configuration:
  two contexts whose configurations agree on these two fields render the same header.
\<close>

theorem HomepageHeader_reads_title_tagline:
  "Config.title (siteConfig c1) = Config.title (siteConfig c2) \<Longrightarrow>
   tagline (siteConfig c1) = tagline (siteConfig c2) \<Longrightarrow>
   HomepageHeader c1 = HomepageHeader c2"
  by (simp add: HomepageHeader_def)

theorem HomepageHeader_reads_title_tagline_witness:
  "Config.title (config \<lparr> getFullYear = 2024 \<rparr>)
     = Config.title ((config \<lparr> getFullYear = 2025 \<rparr>) \<lparr> url := ''https://example.org'' \<rparr>)
   \<and> tagline (config \<lparr> getFullYear = 2024 \<rparr>)
     = tagline ((config \<lparr> getFullYear = 2025 \<rparr>) \<lparr> url := ''https://example.org'' \<rparr>)
   \<and> url (config \<lparr> getFullYear = 2024 \<rparr>)
     \<noteq> url ((config \<lparr> getFullYear = 2025 \<rparr>) \<lparr> url := ''https://example.org'' \<rparr>)
   \<and> HomepageHeader \<lparr> siteConfig = config \<lparr> getFullYear = 2024 \<rparr> \<rparr>
     = HomepageHeader \<lparr> siteConfig =
         (config \<lparr> getFullYear = 2025 \<rparr>) \<lparr> url := ''https://example.org'' \<rparr> \<rparr>"
  using HomepageHeader_reads_title_tagline
    [of "\<lparr> siteConfig = config \<lparr> getFullYear = 2024 \<rparr> \<rparr>"
        "\<lparr> siteConfig = (config \<lparr> getFullYear = 2025 \<rparr>) \<lparr> url := ''https://example.org'' \<rparr> \<rparr>"]
  by (simp add: config_def)

section \<open>The configuration and the clock\<close>

lemma digit_value_digit: "d < 10 \<Longrightarrow> digit_value (digit d) = d"
  by (simp add: digit_value_def digit_def)

lemma digit_not_minus: "d < 10 \<Longrightarrow> digit d \<noteq> CHR ''-''"
proof
  assume d: "d < 10" and e: "digit d = CHR ''-''"
  from e have "of_char (digit d) = (of_char (CHR ''-'') :: nat)" by simp
  with d show False by (simp add: digit_def)
qed

lemma parse_decimal_decimal: "parse_decimal (decimal n) = n"
proof (induction n rule: decimal.induct)
  case (1 n)
  show ?case
  proof (cases "n < 10")
    case True
    then show ?thesis
      by (simp add: decimal.simps [of n] parse_decimal_def digit_value_digit)
  next
    case False
    with 1 have "parse_decimal (decimal (n div 10)) = n div 10" by simp
    with False show ?thesis
      by (simp add: decimal.simps [of n] parse_decimal_def digit_value_digit)
  qed
qed

lemma decimal_inj: "decimal m = decimal n \<Longrightarrow> m = n"
  by (metis parse_decimal_decimal)

lemma decimal_hd: "\<exists>d cs. d < 10 \<and> decimal n = digit d # cs"
proof (induction n rule: decimal.induct)
  case (1 n)
  show ?case
  proof (cases "n < 10")
    case True
    then show ?thesis by (auto simp add: decimal.simps [of n])
  next
    case False
    with 1 obtain d cs where "d < 10" "decimal (n div 10) = digit d # cs" by auto
    with False show ?thesis by (auto simp add: decimal.simps [of n])
  qed
qed

lemma decimal_no_sign: "decimal n \<noteq> CHR ''-'' # cs"
proof
  assume e: "decimal n = CHR ''-'' # cs"
  obtain d ds where d: "d < 10" "decimal n = digit d # ds"
    using decimal_hd [of n] by blast
  with e have "digit d = CHR ''-''" by simp
  with d(1) show False by (simp add: digit_not_minus)
qed

lemma Number_toString_inj: "Number_toString i = Number_toString j \<Longrightarrow> i = j"
  using decimal_no_sign [of "nat i"] decimal_no_sign [of "nat j"]
  by (auto simp add: Number_toString_def split: if_splits dest!: decimal_inj dest: sym)

lemma copyright_text_eq_iff:
  "copyright_text a = copyright_text b \<longleftrightarrow> getFullYear a = getFullYear b"
  by (auto simp add: copyright_text_def dest: Number_toString_inj)

lemma config_eq_iff: "config a = config b \<longleftrightarrow> getFullYear a = getFullYear b"
proof
  assume "config a = config b"
  then have "copyright (footer (themeConfig (config a))) =
      copyright (footer (themeConfig (config b)))"
    by simp
  then show "getFullYear a = getFullYear b"
    by (simp add: config_def copyright_text_eq_iff)
next
  assume "getFullYear a = getFullYear b"
  then show "config a = config b"
    by (simp add: config_def copyright_text_def)
qed

lemma config_minimal_eq_iff:
  "config_minimal a = config_minimal b \<longleftrightarrow> getFullYear a = getFullYear b"
proof
  assume "config_minimal a = config_minimal b"
  then have "copyright (footer (themeConfig (config_minimal a))) =
      copyright (footer (themeConfig (config_minimal b)))"
    by simp
  then show "getFullYear a = getFullYear b"
    by (simp add: config_minimal_def copyright_text_eq_iff)
next
  assume "getFullYear a = getFullYear b"
  then show "config_minimal a = config_minimal b"
    by (simp add: config_minimal_def copyright_text_def)
qed

text \<open>
  C6, as stated, fails: the footer copyright embeds \<open>new Date().getFullYear()\<close>, so the
  configuration constructed in 2024 differs from the one constructed in 2025 (their
  copyright strings differ).
\<close>

theorem config_depends_on_clock_counterexample:
  "config \<lparr> getFullYear = 2024 \<rparr> \<noteq> config \<lparr> getFullYear = 2025 \<rparr>
   \<and> copyright (footer (themeConfig (config \<lparr> getFullYear = 2024 \<rparr>)))
     = ''Copyright '' @ [CHR 0xC2, CHR 0xA9] @ '' 2024 BrewKits. Built with Docusaurus.''
   \<and> copyright (footer (themeConfig (config \<lparr> getFullYear = 2025 \<rparr>)))
     = ''Copyright '' @ [CHR 0xC2, CHR 0xA9] @ '' 2025 BrewKits. Built with Docusaurus.''"
  by code_simp

text \<open>
  C6, amended. Every field of the site configuration other than the footer copyright is
  static: two constructions differ at most in that string, which is
  \<open>Copyright (c) <year> BrewKits. Built with Docusaurus.\<close> with the year the clock
  gives at construction. Hence two constructions yield identical configurations
  exactly when they read the same year. This holds for both configuration objects of
  the repository.
\<close>

theorem config_static_up_to_copyright_year:
  "config a = (config b) \<lparr> themeConfig := (themeConfig (config b))
       \<lparr> footer := (footer (themeConfig (config b))) \<lparr> copyright := copyright_text a \<rparr> \<rparr> \<rparr>
   \<and> config_minimal a = (config_minimal b) \<lparr> themeConfig := (themeConfig (config_minimal b))
       \<lparr> footer := (footer (themeConfig (config_minimal b)))
            \<lparr> copyright := copyright_text a \<rparr> \<rparr> \<rparr>
   \<and> (config a = config b) = (getFullYear a = getFullYear b)
   \<and> (config_minimal a = config_minimal b) = (getFullYear a = getFullYear b)"
proof -
  have upd: "config a = (config b) \<lparr> themeConfig := (themeConfig (config b))
       \<lparr> footer := (footer (themeConfig (config b))) \<lparr> copyright := copyright_text a \<rparr> \<rparr> \<rparr>"
    by (simp add: config_def)
  have upd_min: "config_minimal a = (config_minimal b)
       \<lparr> themeConfig := (themeConfig (config_minimal b))
       \<lparr> footer := (footer (themeConfig (config_minimal b)))
            \<lparr> copyright := copyright_text a \<rparr> \<rparr> \<rparr>"
    by (simp add: config_minimal_def)
  show ?thesis
    using upd upd_min config_eq_iff [of a b] config_minimal_eq_iff [of a b] by blast
qed

theorem config_static_up_to_copyright_year_witness:
  "config \<lparr> getFullYear = 2024 \<rparr> = config \<lparr> getFullYear = 2024 \<rparr>
   \<and> config_minimal \<lparr> getFullYear = 2024 \<rparr> \<noteq> config_minimal \<lparr> getFullYear = 2026 \<rparr>"
proof -
  have "(config_minimal \<lparr> getFullYear = 2024 \<rparr> = config_minimal \<lparr> getFullYear = 2026 \<rparr>)
      = (getFullYear \<lparr> getFullYear = 2024 \<rparr> = getFullYear \<lparr> getFullYear = 2026 \<rparr>)"
    using config_static_up_to_copyright_year
      [of "\<lparr> getFullYear = 2024 \<rparr>" "\<lparr> getFullYear = 2026 \<rparr>"]
    by blast
  then show ?thesis by simp
qed

section \<open>Properties of route resolution\<close>








end
